theory Spec2Isabelle
  imports Main
begin

section \<open>Python values and the metric model\<close>

text \<open>
  The values a metric or a property can hold at run time. The declared annotation is
  \<open>Union[int, float, bool]\<close>, but \<open>marshal_payload\<close> tests the run-time class
  with \<open>isinstance\<close> and has an \<open>else\<close> branch, so strings, \<open>None\<close> and other
  objects are values of the model too. No arithmetic is done on floats in this code; a
  float is carried as its \<open>repr\<close> (which identifies the float, and which is also what
  \<open>str\<close> returns for it). An arbitrary other object is carried as what \<open>str\<close>
  returns for it.
\<close>

datatype pyval =
    PBool bool
  | PInt int
  | PFloat string
  | PStr string
  | PNone
  | PObj string

datatype pyclass = Cbool | Cint | Cfloat | Cstr | CNoneType | Cobject

fun class_of :: "pyval \<Rightarrow> pyclass" where
  "class_of (PBool b) = Cbool"
| "class_of (PInt i) = Cint"
| "class_of (PFloat f) = Cfloat"
| "class_of (PStr s) = Cstr"
| "class_of PNone = CNoneType"
| "class_of (PObj r) = Cobject"

text \<open>In Python \<open>bool\<close> is a subclass of \<open>int\<close>: \<open>isinstance(True, int)\<close> holds.\<close>

fun issubclass :: "pyclass \<Rightarrow> pyclass \<Rightarrow> bool" where
  "issubclass Cbool Cint = True"
| "issubclass c d = (c = d)"

definition isinstance :: "pyval \<Rightarrow> pyclass \<Rightarrow> bool" where
  "isinstance v c = issubclass (class_of v) c"

text \<open>\<open>str(v)\<close>. The decimal rendering of an integer is written out.\<close>

definition digit_char :: "nat \<Rightarrow> char" where
  "digit_char d = char_of (48 + d)"

function str_nat :: "nat \<Rightarrow> string" where
  "str_nat n = (if n < 10 then [digit_char n] else str_nat (n div 10) @ [digit_char (n mod 10)])"
  by pat_completeness auto
termination
  by (relation "measure id") auto

definition str_int :: "int \<Rightarrow> string" where
  "str_int i = (if i < 0 then CHR ''-'' # str_nat (nat (- i)) else str_nat (nat i))"

fun py_str :: "pyval \<Rightarrow> string" where
  "py_str (PBool b) = (if b then ''True'' else ''False'')"
| "py_str (PInt i) = str_int i"
| "py_str (PFloat f) = f"
| "py_str (PStr s) = s"
| "py_str PNone = ''None''"
| "py_str (PObj r) = r"

text \<open>
  \<open>class MetricProperty(BaseModel)\<close> and \<open>class Metric(BaseModel)\<close>. The field
  \<open>properties\<close> defaults to \<open>None\<close>. Field names carry a prefix because the two
  classes share names.
\<close>

record MetricProperty =
  mp_name :: string
  mp_data_type :: int
  mp_value :: pyval

record Metric =
  m_alias :: string
  m_alias_map :: int
  m_data_type :: int
  m_value :: pyval
  m_properties :: "MetricProperty list option"

text \<open>
  \<open>Dict[str, Metric]\<close>: an insertion-ordered dictionary, as an association list in
  insertion order. \<open>list(metrics)\<close> is the list of keys, \<open>metrics[alias]\<close> the
  lookup.
\<close>

type_synonym metric_dict = "(string \<times> Metric) list"

section \<open>The wire message\<close>

text \<open>
  The protobuf message the payload is built in (\<open>sparkplug_b_pb2.Payload\<close>, generated
  code outside the source tree). Its shape is the wire schema: a timestamp, the ordered
  metrics, \<open>seq\<close>, and the place where a node birth or death message embeds
  \<open>bdSeq\<close>. A value field of the schema is a one-of: the model records which field was
  assigned and the Python object assigned to it; the conversion to the wire type and the
  final \<open>SerializeToString\<close> belong to the serialization library, and the bytes
  returned are a function of the message modelled here.
\<close>

datatype pb_value =
    Unset
  | BoolValue pyval
  | IntValue pyval
  | FloatValue pyval
  | StringValue string

record PropertyValue =
  pv_type :: int
  pv_value :: pb_value

record PbMetric =
  pm_name :: string
  pm_alias :: int
  pm_datatype :: int
  pm_value :: pb_value
  pm_keys :: "string list"
  pm_values :: "PropertyValue list"

record Payload =
  pl_timestamp :: "nat option"
  pl_metrics :: "PbMetric list"
  pl_seq :: "nat option"
  pl_bdSeq :: "int option"

text \<open>\<open>sparkplug_b_pb2.Payload()\<close>: a message with every field unset.\<close>

definition new_Payload :: Payload where
  "new_Payload = \<lparr>pl_timestamp = None, pl_metrics = [], pl_seq = None, pl_bdSeq = None\<rparr>"

section \<open>The payload codec\<close>

text \<open>
  The type-directed dispatch of \<open>marshal_payload\<close> (lines 51 to 58), in the order of
  the source: \<open>bool\<close>, then \<open>int\<close>, then \<open>float\<close>, else the string field
  with \<open>str(prop.value)\<close>.
\<close>

definition set_property_value :: "pyval \<Rightarrow> pb_value" where
  "set_property_value v =
     (if isinstance v Cbool then BoolValue v
      else if isinstance v Cint then IntValue v
      else if isinstance v Cfloat then FloatValue v
      else StringValue (py_str v))"

text \<open>
  Modelled from the spec: \<open>addMetric\<close> of \<open>sparkplub_b_packets.core.sparkplug_b\<close>,
  which is not in the source tree. The spec's codec writes, for each metric, its
  \<open>alias_map\<close>, its \<open>data_type\<close> tag and its value into the wire structure, with
  the same type-directed dispatch: boolean to the bool field, integer to the int field,
  float to the float field, anything else to the string field, stringified. The call
  appends the new wire metric to the container and returns it. The spec also asks for an
  \<open>EncodingError\<close> on a value that is none of bool, int, float and string; the two
  sentences agree on every value that classifies.
\<close>

definition addMetric :: "Payload \<Rightarrow> string \<Rightarrow> int \<Rightarrow> int \<Rightarrow> pyval \<Rightarrow> Payload \<times> PbMetric" where
  "addMetric container name alias type_tag v =
     (let metric = \<lparr>pm_name = name, pm_alias = alias, pm_datatype = type_tag,
                      pm_value = set_property_value v, pm_keys = [], pm_values = []\<rparr>
      in (container\<lparr>pl_metrics := pl_metrics container @ [metric]\<rparr>, metric))"

text \<open>
  The inner loop (lines 47 to 58): for each property, its name is appended to
  \<open>metric.properties.keys\<close> and a typed value record to
  \<open>metric.properties.values\<close>.
\<close>

fun add_properties :: "MetricProperty list \<Rightarrow> PbMetric \<Rightarrow> PbMetric" where
  "add_properties [] metric = metric"
| "add_properties (prop # props) metric =
     add_properties props
       (metric\<lparr>pm_keys := pm_keys metric @ [mp_name prop],
               pm_values := pm_values metric @
                 [\<lparr>pv_type = mp_data_type prop, pv_value = set_property_value (mp_value prop)\<rparr>]\<rparr>)"

text \<open>\<open>if metrics[alias].properties:\<close> is false for \<open>None\<close> and for the empty list.\<close>

fun truthy_properties :: "MetricProperty list option \<Rightarrow> MetricProperty list" where
  "truthy_properties None = []"
| "truthy_properties (Some props) = props"

text \<open>
  \<open>metric\<close> is a reference to the wire metric that \<open>addMetric\<close> appended to
  \<open>payload.metrics\<close>, so the property loop changes the last metric of the payload.
\<close>

definition write_back :: "Payload \<Rightarrow> PbMetric \<Rightarrow> Payload" where
  "write_back payload metric = payload\<lparr>pl_metrics := butlast (pl_metrics payload) @ [metric]\<rparr>"

datatype error = KeyError string

text \<open>
  One iteration of the outer loop, on the pair of objects the function holds references
  to: the message under construction and the caller's dictionary. \<open>metrics[alias]\<close>
  raises \<open>KeyError\<close> on a missing key.
\<close>

definition marshal_step :: "string \<Rightarrow> Payload \<times> metric_dict \<Rightarrow> error + Payload \<times> metric_dict" where
  "marshal_step alias st =
     (case st of (payload, metrics) \<Rightarrow>
        (case map_of metrics alias of
           None \<Rightarrow> Inl (KeyError alias)
         | Some m \<Rightarrow>
             (case addMetric payload alias (m_alias_map m) (m_data_type m) (m_value m) of
                (payload', metric) \<Rightarrow>
                  Inr (write_back payload' (add_properties (truthy_properties (m_properties m)) metric),
                       metrics))))"

fun marshal_loop :: "string list \<Rightarrow> Payload \<times> metric_dict \<Rightarrow> error + Payload \<times> metric_dict" where
  "marshal_loop [] st = Inr st"
| "marshal_loop (alias # aliases) st =
     (case marshal_step alias st of
        Inl e \<Rightarrow> Inl e
      | Inr st' \<Rightarrow> marshal_loop aliases st')"

text \<open>
  \<open>marshal_payload(payload, metrics)\<close>. The result is the message whose serialization
  is returned, together with the caller's dictionary as the call leaves it.
\<close>

definition marshal_payload :: "Payload \<Rightarrow> metric_dict \<Rightarrow> error + Payload \<times> metric_dict" where
  "marshal_payload payload metrics = marshal_loop (map fst metrics) (payload, metrics)"

section \<open>The sequence context\<close>

text \<open>
  The helpers \<open>getNodeBirthPayload\<close>, \<open>getNodeDeathPayload\<close> and
  \<open>getDeviceBirthPayload\<close> live in \<open>sparkplub_b_packets.core.sparkplug_b\<close>, which
  is not in the source tree. The packet classes call them without arguments; they work on
  the module's global state and may read the clock. The packet classes take them as a
  parameter: each helper maps the clock reading (milliseconds) and the module state to
  the base message and the new module state.
\<close>

record 's core =
  getNodeBirthPayload :: "nat \<Rightarrow> 's \<Rightarrow> Payload \<times> 's"
  getNodeDeathPayload :: "nat \<Rightarrow> 's \<Rightarrow> Payload \<times> 's"
  getDeviceBirthPayload :: "nat \<Rightarrow> 's \<Rightarrow> Payload \<times> 's"

text \<open>The module state of the spec: the process-wide \<open>sparkplug.bdSeq\<close>.\<close>

record SeqCtx =
  bdSeq :: int

text \<open>
  Modelled from the spec: the three helpers of the sequence context, missing from the
  source tree. \<open>nodeBirthPayload\<close> reads the current bdSeq into the message and does
  not advance it; \<open>nodeDeathPayload\<close> reads the current bdSeq into the message, then
  advances it; \<open>deviceBirthPayload\<close> carries the timestamp only, no bdSeq.
\<close>

definition spec_getNodeBirthPayload :: "nat \<Rightarrow> SeqCtx \<Rightarrow> Payload \<times> SeqCtx" where
  "spec_getNodeBirthPayload now ctx = (new_Payload\<lparr>pl_bdSeq := Some (bdSeq ctx)\<rparr>, ctx)"

definition spec_getNodeDeathPayload :: "nat \<Rightarrow> SeqCtx \<Rightarrow> Payload \<times> SeqCtx" where
  "spec_getNodeDeathPayload now ctx =
     (new_Payload\<lparr>pl_bdSeq := Some (bdSeq ctx)\<rparr>, ctx\<lparr>bdSeq := bdSeq ctx + 1\<rparr>)"

definition spec_getDeviceBirthPayload :: "nat \<Rightarrow> SeqCtx \<Rightarrow> Payload \<times> SeqCtx" where
  "spec_getDeviceBirthPayload now ctx = (new_Payload\<lparr>pl_timestamp := Some now\<rparr>, ctx)"

definition spec_core :: "SeqCtx core" where
  "spec_core = \<lparr>getNodeBirthPayload = spec_getNodeBirthPayload,
                 getNodeDeathPayload = spec_getNodeDeathPayload,
                 getDeviceBirthPayload = spec_getDeviceBirthPayload\<rparr>"

section \<open>The packet classes\<close>

text \<open>
  One constructor per class, with the fields its \<open>__init__\<close> stores: group, node,
  the device id for the classes derived from \<open>DBirthPacket\<close>, and \<open>_metrics\<close>
  (never \<open>None\<close>: \<open>__init__\<close> stores \<open>{}\<close> for a missing or empty argument).
\<close>

datatype Packet =
    NBirthPacket string string metric_dict
  | NDataPacket string string metric_dict
  | NCmdPacket string string metric_dict
  | NDeathPacket string string metric_dict
  | DBirthPacket string string string metric_dict
  | DDataPacket string string string metric_dict
  | DCmdPacket string string metric_dict
  | DDeathPacket string string string metric_dict

datatype kind = NBIRTH | NDEATH | DBIRTH | DDEATH | NDATA | DDATA | NCMD | DCMD

fun kind_of :: "Packet \<Rightarrow> kind" where
  "kind_of (NBirthPacket g n ms) = NBIRTH"
| "kind_of (NDataPacket g n ms) = NDATA"
| "kind_of (NCmdPacket g n ms) = NCMD"
| "kind_of (NDeathPacket g n ms) = NDEATH"
| "kind_of (DBirthPacket g n d ms) = DBIRTH"
| "kind_of (DDataPacket g n d ms) = DDATA"
| "kind_of (DCmdPacket g n ms) = DCMD"
| "kind_of (DDeathPacket g n d ms) = DDEATH"

text \<open>The \<open>metrics\<close> property: the stored \<open>_metrics\<close>.\<close>

fun metrics_of :: "Packet \<Rightarrow> metric_dict" where
  "metrics_of (NBirthPacket g n ms) = ms"
| "metrics_of (NDataPacket g n ms) = ms"
| "metrics_of (NCmdPacket g n ms) = ms"
| "metrics_of (NDeathPacket g n ms) = ms"
| "metrics_of (DBirthPacket g n d ms) = ms"
| "metrics_of (DDataPacket g n d ms) = ms"
| "metrics_of (DCmdPacket g n ms) = ms"
| "metrics_of (DDeathPacket g n d ms) = ms"

text \<open>The \<open>topic\<close> property of each class: an f-string over the stored identifiers.\<close>

fun topic :: "Packet \<Rightarrow> string" where
  "topic (NBirthPacket g n ms) = ''spBv1.0/'' @ g @ ''/NBIRTH/'' @ n"
| "topic (NDataPacket g n ms) = ''spBv1.0/'' @ g @ ''/NDATA/'' @ n"
| "topic (NCmdPacket g n ms) = ''spBv1.0/'' @ g @ ''/NCMD/'' @ n"
| "topic (NDeathPacket g n ms) = ''spBv1.0/'' @ g @ ''/NDEATH/'' @ n"
| "topic (DBirthPacket g n d ms) = ''spBv1.0/'' @ g @ ''/DBIRTH/'' @ n @ ''/'' @ d"
| "topic (DDataPacket g n d ms) = ''spBv1.0/'' @ g @ ''/DDATA/'' @ n @ ''/'' @ d"
| "topic (DCmdPacket g n ms) = ''spBv1.0/'' @ g @ ''/DCMD/'' @ n"
| "topic (DDeathPacket g n d ms) = ''spBv1.0/'' @ g @ ''/DDEATH/'' @ n @ ''/'' @ d"

text \<open>
  \<open>metrics if metrics else self.metrics\<close>: the argument defaults to \<open>None\<close>, and
  both \<open>None\<close> and the empty dictionary are false.
\<close>

fun select_metrics :: "metric_dict option \<Rightarrow> metric_dict \<Rightarrow> metric_dict" where
  "select_metrics None stored = stored"
| "select_metrics (Some []) stored = stored"
| "select_metrics (Some (e # es)) stored = e # es"

text \<open>
  What \<open>payload\<close> returns after \<open>marshal_payload\<close>: the message, with the module
  state the helper left.
\<close>

definition marshalled :: "Payload \<times> 's \<Rightarrow> metric_dict \<Rightarrow> error + Payload \<times> 's" where
  "marshalled base metrics =
     (case base of (payload, st) \<Rightarrow>
        (case marshal_payload payload metrics of
           Inl e \<Rightarrow> Inl e
         | Inr (payload', metrics') \<Rightarrow> Inr (payload', st)))"

text \<open>
  \<open>payload(self, metrics=None)\<close> of each class. \<open>now\<close> is the clock reading
  \<open>int(round(time.time() * 1000))\<close> at the call, \<open>st\<close> the state of the
  \<open>sparkplug\<close> module. The two death classes serialize the helper's message and do
  not call \<open>marshal_payload\<close>.
\<close>

fun payload :: "'s core \<Rightarrow> Packet \<Rightarrow> metric_dict option \<Rightarrow> nat \<Rightarrow> 's \<Rightarrow> error + Payload \<times> 's" where
  "payload core (NBirthPacket g n ms) metrics now st =
     marshalled (getNodeBirthPayload core now st) (select_metrics metrics ms)"
| "payload core (NDataPacket g n ms) metrics now st =
     marshalled (getDeviceBirthPayload core now st) (select_metrics metrics ms)"
| "payload core (NCmdPacket g n ms) metrics now st =
     marshalled (new_Payload\<lparr>pl_timestamp := Some now\<rparr>, st) (select_metrics metrics ms)"
| "payload core (NDeathPacket g n ms) metrics now st =
     Inr (getNodeDeathPayload core now st)"
| "payload core (DBirthPacket g n d ms) metrics now st =
     marshalled (getDeviceBirthPayload core now st) (select_metrics metrics ms)"
| "payload core (DDataPacket g n d ms) metrics now st =
     marshalled (getDeviceBirthPayload core now st) (select_metrics metrics ms)"
| "payload core (DCmdPacket g n ms) metrics now st =
     marshalled (new_Payload\<lparr>pl_timestamp := Some now\<rparr>, st) (select_metrics metrics ms)"
| "payload core (DDeathPacket g n d ms) metrics now st =
     Inr (getDeviceBirthPayload core now st)"

text \<open>
  The message each \<open>payload\<close> method starts from (its first statements): the
  helper it calls, or a new message stamped with the clock reading.
\<close>

fun base_message :: "'s core \<Rightarrow> Packet \<Rightarrow> nat \<Rightarrow> 's \<Rightarrow> Payload \<times> 's" where
  "base_message core (NBirthPacket g n ms) now st = getNodeBirthPayload core now st"
| "base_message core (NDataPacket g n ms) now st = getDeviceBirthPayload core now st"
| "base_message core (NCmdPacket g n ms) now st = (new_Payload\<lparr>pl_timestamp := Some now\<rparr>, st)"
| "base_message core (NDeathPacket g n ms) now st = getNodeDeathPayload core now st"
| "base_message core (DBirthPacket g n d ms) now st = getDeviceBirthPayload core now st"
| "base_message core (DDataPacket g n d ms) now st = getDeviceBirthPayload core now st"
| "base_message core (DCmdPacket g n ms) now st = (new_Payload\<lparr>pl_timestamp := Some now\<rparr>, st)"
| "base_message core (DDeathPacket g n d ms) now st = getDeviceBirthPayload core now st"

text \<open>
  A sequence of \<open>payload\<close> calls in one process: each call names the packet, the
  override argument and the clock reading, and works on the module state the call before
  it left. The first exception ends the sequence.
\<close>

fun run :: "'s core \<Rightarrow> (Packet \<times> metric_dict option \<times> nat) list \<Rightarrow> 's \<Rightarrow> error + Payload list \<times> 's" where
  "run core [] st = Inr ([], st)"
| "run core ((pkt, metrics, now) # calls) st =
     (case payload core pkt metrics now st of
        Inl e \<Rightarrow> Inl e
      | Inr (p, st') \<Rightarrow>
          (case run core calls st' of
             Inl e \<Rightarrow> Inl e
           | Inr (ps, st'') \<Rightarrow> Inr (p # ps, st'')))"

section \<open>Notions the properties are stated with\<close>

text \<open>
  The wire metric one dictionary entry is encoded to, and the wire metrics of a whole
  dictionary, in the order of its keys.
\<close>

definition wire_metric :: "string \<Rightarrow> Metric \<Rightarrow> PbMetric" where
  "wire_metric alias m =
     \<lparr>pm_name = alias, pm_alias = m_alias_map m, pm_datatype = m_data_type m,
      pm_value = set_property_value (m_value m),
      pm_keys = map mp_name (truthy_properties (m_properties m)),
      pm_values = map (\<lambda>prop. \<lparr>pv_type = mp_data_type prop,
                                  pv_value = set_property_value (mp_value prop)\<rparr>)
                      (truthy_properties (m_properties m))\<rparr>"

definition encoded :: "metric_dict \<Rightarrow> PbMetric list" where
  "encoded metrics =
     concat (map (\<lambda>alias. case map_of metrics alias of None \<Rightarrow> [] | Some m \<Rightarrow> [wire_metric alias m])
                 (map fst metrics))"

text \<open>
  Identifiers and topics. An identifier is valid when it is not empty and has no
  \<open>/\<close>. \<open>split_slash\<close> is \<open>str.split('/')\<close>. A topic is well formed when it
  has the namespace, the message type and one segment for each identifier of the packet,
  none of them empty.
\<close>

definition valid_identifier :: "string \<Rightarrow> bool" where
  "valid_identifier s = (s \<noteq> [] \<and> CHR ''/'' \<notin> set s)"

fun identifiers :: "Packet \<Rightarrow> string list" where
  "identifiers (NBirthPacket g n ms) = [g, n]"
| "identifiers (NDataPacket g n ms) = [g, n]"
| "identifiers (NCmdPacket g n ms) = [g, n]"
| "identifiers (NDeathPacket g n ms) = [g, n]"
| "identifiers (DBirthPacket g n d ms) = [g, n, d]"
| "identifiers (DDataPacket g n d ms) = [g, n, d]"
| "identifiers (DCmdPacket g n ms) = [g, n]"
| "identifiers (DDeathPacket g n d ms) = [g, n, d]"

fun split_slash :: "string \<Rightarrow> string list" where
  "split_slash [] = [[]]"
| "split_slash (c # cs) =
     (if c = CHR ''/'' then [] # split_slash cs
      else (c # hd (split_slash cs)) # tl (split_slash cs))"

definition well_formed_topic :: "Packet \<Rightarrow> bool" where
  "well_formed_topic pkt =
     (length (split_slash (topic pkt)) = 2 + length (identifiers pkt) \<and>
      [] \<notin> set (split_slash (topic pkt)))"

text \<open>
  A second instance of the helper module, used to observe which helper a \<open>payload\<close>
  method calls: its device-birth helper also stamps the \<open>seq\<close> field of the schema.
\<close>

definition probe_core :: "SeqCtx core" where
  "probe_core = \<lparr>getNodeBirthPayload = spec_getNodeBirthPayload,
                  getNodeDeathPayload = spec_getNodeDeathPayload,
                  getDeviceBirthPayload =
                    (\<lambda>now ctx. (new_Payload\<lparr>pl_timestamp := Some now, pl_seq := Some 0\<rparr>, ctx))\<rparr>"

text \<open>Metrics of the kind the example builder assembles, used as concrete inputs.\<close>

definition flow_metric :: Metric where
  "flow_metric =
     \<lparr>m_alias = ''OGI/Flow'', m_alias_map = 8, m_data_type = 9, m_value = PFloat ''0.0'',
      m_properties = Some
        [\<lparr>mp_name = ''Setpoint'', mp_data_type = 5, mp_value = PInt 0\<rparr>,
         \<lparr>mp_name = ''Quality'', mp_data_type = 9, mp_value = PFloat ''0.0''\<rparr>,
         \<lparr>mp_name = ''Valid'', mp_data_type = 11, mp_value = PBool True\<rparr>]\<rparr>"

definition rebirth_metric :: Metric where
  "rebirth_metric =
     \<lparr>m_alias = ''Node Control/Rebirth'', m_alias_map = 1, m_data_type = 11,
      m_value = PBool True, m_properties = None\<rparr>"

definition example_metrics :: metric_dict where
  "example_metrics = [(''Node Control/Rebirth'', rebirth_metric), (''OGI/Flow'', flow_metric)]"

definition unclassifiable_metrics :: metric_dict where
  "unclassifiable_metrics =
     [(''OGI/Uptime'',
       \<lparr>m_alias = ''OGI/Uptime'', m_alias_map = 10, m_data_type = 9, m_value = PFloat ''0.0'',
        m_properties = Some [\<lparr>mp_name = ''Quality'', mp_data_type = 9, mp_value = PNone\<rparr>]\<rparr>)]"

text \<open>
  A value classifies when it is an instance of one of bool, int, float and string.
\<close>

definition classifiable :: "pyval \<Rightarrow> bool" where
  "classifiable v =
     (isinstance v Cbool \<or> isinstance v Cint \<or> isinstance v Cfloat \<or> isinstance v Cstr)"

text \<open>
  A metric with a boolean property and an unclassifiable property, neither of them the
  last one.
\<close>

definition valve_metric :: Metric where
  "valve_metric =
     \<lparr>m_alias = ''OGI/Valve'', m_alias_map = 12, m_data_type = 9, m_value = PFloat ''0.5'',
      m_properties = Some
        [\<lparr>mp_name = ''Setpoint'', mp_data_type = 5, mp_value = PInt 0\<rparr>,
         \<lparr>mp_name = ''Open'', mp_data_type = 11, mp_value = PBool True\<rparr>,
         \<lparr>mp_name = ''Operator'', mp_data_type = 12, mp_value = PNone\<rparr>,
         \<lparr>mp_name = ''Quality'', mp_data_type = 9, mp_value = PFloat ''0.0''\<rparr>]\<rparr>"

definition valve_metrics :: metric_dict where
  "valve_metrics = [(''Node Control/Rebirth'', rebirth_metric), (''OGI/Valve'', valve_metric)]"

lemmas example_defs =
  example_metrics_def flow_metric_def rebirth_metric_def unclassifiable_metrics_def
  encoded_def wire_metric_def set_property_value_def isinstance_def new_Payload_def

lemmas valve_defs =
  valve_metrics_def valve_metric_def rebirth_metric_def classifiable_def isinstance_def
  new_Payload_def

section \<open>What \<open>marshal_payload\<close> computes\<close>

lemma add_properties_eq:
  "add_properties props metric =
     metric\<lparr>pm_keys := pm_keys metric @ map mp_name props,
            pm_values := pm_values metric @
              map (\<lambda>prop. \<lparr>pv_type = mp_data_type prop,
                            pv_value = set_property_value (mp_value prop)\<rparr>) props\<rparr>"
  by (induction props arbitrary: metric) simp_all

lemma marshal_step_found:
  assumes "map_of metrics a = Some m"
  shows "marshal_step a (p, metrics) =
           Inr (p\<lparr>pl_metrics := pl_metrics p @ [wire_metric a m]\<rparr>, metrics)"
  using assms
  by (simp add: marshal_step_def addMetric_def Let_def write_back_def add_properties_eq
      wire_metric_def)

text \<open>Every key the loop visits is a key of the dictionary, so no lookup fails.\<close>

lemma marshal_loop_eq:
  assumes "set aliases \<subseteq> fst ` set metrics"
  shows "marshal_loop aliases (p, metrics) =
           Inr (p\<lparr>pl_metrics := pl_metrics p @
                  concat (map (\<lambda>a. case map_of metrics a of None \<Rightarrow> []
                                     | Some m \<Rightarrow> [wire_metric a m]) aliases)\<rparr>,
                metrics)"
  using assms
proof (induction aliases arbitrary: p)
  case Nil
  then show ?case by simp
next
  case (Cons a rest)
  from Cons.prems have "a \<in> fst ` set metrics" by simp
  then obtain m where m: "map_of metrics a = Some m"
    by (metis domIff dom_map_of_conv_image_fst not_Some_eq)
  from Cons.prems have rest: "set rest \<subseteq> fst ` set metrics" by simp
  show ?case
    by (simp add: marshal_step_found [OF m] Cons.IH [OF rest] m)
qed

lemma marshal_payload_eq:
  "marshal_payload p metrics =
     Inr (p\<lparr>pl_metrics := pl_metrics p @ encoded metrics\<rparr>, metrics)"
  unfolding marshal_payload_def encoded_def
  by (rule marshal_loop_eq) simp

text \<open>In a dictionary the keys are distinct, and every entry is encoded, in order.\<close>

lemma encoded_distinct:
  assumes "distinct (map fst metrics)"
  shows "encoded metrics = map (\<lambda>(a, m). wire_metric a m) metrics"
proof -
  have "concat (map (\<lambda>a. case map_of metrics a of None \<Rightarrow> [] | Some m \<Rightarrow> [wire_metric a m])
                 (map fst xs)) = map (\<lambda>(a, m). wire_metric a m) xs"
    if "set xs \<subseteq> set metrics" for xs
    using that
  proof (induction xs)
    case Nil
    then show ?case by simp
  next
    case (Cons x xs)
    obtain a m where x: "x = (a, m)" by (cases x)
    with Cons.prems have "(a, m) \<in> set metrics" by simp
    with assms have "map_of metrics a = Some m" by simp
    with Cons x show ?case by simp
  qed
  then show ?thesis unfolding encoded_def by simp
qed

lemma marshalled_eq:
  "marshalled (p, st) metrics = Inr (p\<lparr>pl_metrics := pl_metrics p @ encoded metrics\<rparr>, st)"
  by (simp add: marshalled_def marshal_payload_eq)

lemma encoded_keys:
  assumes "set keys \<subseteq> fst ` set metrics"
  shows "concat (map (\<lambda>a. case map_of metrics a of None \<Rightarrow> [] | Some m \<Rightarrow> [wire_metric a m]) keys) =
           map (\<lambda>a. wire_metric a (the (map_of metrics a))) keys"
  using assms
proof (induction keys)
  case Nil
  show ?case by simp
next
  case (Cons a keys)
  from Cons.prems have "a \<in> fst ` set metrics" by simp
  then obtain m where m: "map_of metrics a = Some m"
    by (metis domIff dom_map_of_conv_image_fst not_Some_eq)
  from Cons.prems have "set keys \<subseteq> fst ` set metrics" by simp
  with Cons.IH m show ?case by simp
qed

lemma encoded_length: "length (encoded metrics) = length metrics"
  unfolding encoded_def by (subst encoded_keys) simp_all

lemma encoded_nth:
  assumes "j < length metrics" and "map_of metrics (fst (metrics ! j)) = Some m"
  shows "encoded metrics ! j = wire_metric (fst (metrics ! j)) m"
proof -
  have "encoded metrics = map (\<lambda>a. wire_metric a (the (map_of metrics a))) (map fst metrics)"
    unfolding encoded_def by (rule encoded_keys) simp
  with assms show ?thesis by simp
qed

text \<open>
  The wire metric at the place of the \<open>j\<close>-th key carries, at the place of the
  \<open>i\<close>-th property, the name of that property and its value as the dispatch writes
  it.
\<close>

lemma marshal_payload_property:
  assumes "j < length metrics" and "map_of metrics (fst (metrics ! j)) = Some m"
    and "i < length (truthy_properties (m_properties m))"
  shows "pm_name ((pl_metrics p @ encoded metrics) ! (length (pl_metrics p) + j)) = fst (metrics ! j)"
    and "pm_keys ((pl_metrics p @ encoded metrics) ! (length (pl_metrics p) + j)) ! i =
           mp_name (truthy_properties (m_properties m) ! i)"
    and "pm_values ((pl_metrics p @ encoded metrics) ! (length (pl_metrics p) + j)) ! i =
           \<lparr>pv_type = mp_data_type (truthy_properties (m_properties m) ! i),
            pv_value = set_property_value (mp_value (truthy_properties (m_properties m) ! i))\<rparr>"
  using assms by (simp_all add: encoded_nth wire_metric_def)

section \<open>The codec reads the caller's metrics\<close>

text \<open>
  C9: for every metric mapping passed to the encoder, \<open>marshal_payload\<close> leaves the
  mapping unchanged. The call returns, and the dictionary it leaves is the dictionary it
  was given: every key, and under it every alias, alias_map, data_type, value and list of
  properties, in the same order.
\<close>

theorem marshal_payload_reads_only:
  "\<exists>p'. marshal_payload p metrics = Inr (p', metrics)"
  by (simp add: marshal_payload_eq)

theorem marshal_payload_reads_only_witness:
  "\<exists>p'. marshal_payload new_Payload example_metrics = Inr (p', example_metrics)"
  using marshal_payload_reads_only [of new_Payload example_metrics] .

text \<open>
  C7: in the payload \<open>marshal_payload\<close> returns, every property whose value is a
  boolean, of any metric of the mapping and at any place in its property list, is written
  to the bool field, never to the int field, although a boolean is an instance of
  \<open>int\<close> as well: the checks run in the order bool, int, float, and everything else
  is stringified.
\<close>

theorem boolean_property_encoded_as_bool:
  "(\<exists>p'. marshal_payload p metrics = Inr (p', metrics) \<and>
      length (pl_metrics p') = length (pl_metrics p) + length metrics \<and>
      (\<forall>j m i b.
         j < length metrics \<and> map_of metrics (fst (metrics ! j)) = Some m \<and>
         i < length (truthy_properties (m_properties m)) \<and>
         mp_value (truthy_properties (m_properties m) ! i) = PBool b \<longrightarrow>
         pm_name (pl_metrics p' ! (length (pl_metrics p) + j)) = fst (metrics ! j) \<and>
         pm_keys (pl_metrics p' ! (length (pl_metrics p) + j)) ! i =
           mp_name (truthy_properties (m_properties m) ! i) \<and>
         pm_values (pl_metrics p' ! (length (pl_metrics p) + j)) ! i =
           \<lparr>pv_type = mp_data_type (truthy_properties (m_properties m) ! i),
            pv_value = BoolValue (PBool b)\<rparr>)) \<and>
   isinstance (PBool c) Cbool \<and> isinstance (PBool c) Cint \<and>
   set_property_value (PBool c) = BoolValue (PBool c) \<and>
   set_property_value (PBool c) \<noteq> IntValue (PBool c) \<and>
   set_property_value (PInt k) = IntValue (PInt k) \<and>
   set_property_value (PFloat f) = FloatValue (PFloat f) \<and>
   set_property_value (PStr s) = StringValue s"
proof -
  have disp: "set_property_value (PBool b) = BoolValue (PBool b)" for b
    by (simp add: set_property_value_def isinstance_def)
  let ?p' = "p\<lparr>pl_metrics := pl_metrics p @ encoded metrics\<rparr>"
  have "marshal_payload p metrics = Inr (?p', metrics)"
    by (rule marshal_payload_eq)
  moreover have "length (pl_metrics ?p') = length (pl_metrics p) + length metrics"
    by (simp add: encoded_length)
  moreover have "\<forall>j m i b.
         j < length metrics \<and> map_of metrics (fst (metrics ! j)) = Some m \<and>
         i < length (truthy_properties (m_properties m)) \<and>
         mp_value (truthy_properties (m_properties m) ! i) = PBool b \<longrightarrow>
         pm_name (pl_metrics ?p' ! (length (pl_metrics p) + j)) = fst (metrics ! j) \<and>
         pm_keys (pl_metrics ?p' ! (length (pl_metrics p) + j)) ! i =
           mp_name (truthy_properties (m_properties m) ! i) \<and>
         pm_values (pl_metrics ?p' ! (length (pl_metrics p) + j)) ! i =
           \<lparr>pv_type = mp_data_type (truthy_properties (m_properties m) ! i),
            pv_value = BoolValue (PBool b)\<rparr>"
  proof (intro allI impI, elim conjE)
    fix j m i b
    assume j: "j < length metrics" and m: "map_of metrics (fst (metrics ! j)) = Some m"
      and i: "i < length (truthy_properties (m_properties m))"
      and b: "mp_value (truthy_properties (m_properties m) ! i) = PBool b"
    show "pm_name (pl_metrics ?p' ! (length (pl_metrics p) + j)) = fst (metrics ! j) \<and>
         pm_keys (pl_metrics ?p' ! (length (pl_metrics p) + j)) ! i =
           mp_name (truthy_properties (m_properties m) ! i) \<and>
         pm_values (pl_metrics ?p' ! (length (pl_metrics p) + j)) ! i =
           \<lparr>pv_type = mp_data_type (truthy_properties (m_properties m) ! i),
            pv_value = BoolValue (PBool b)\<rparr>"
      using marshal_payload_property [OF j m i, of p] by (simp add: b disp)
  qed
  ultimately have "\<exists>p'. marshal_payload p metrics = Inr (p', metrics) \<and>
      length (pl_metrics p') = length (pl_metrics p) + length metrics \<and>
      (\<forall>j m i b.
         j < length metrics \<and> map_of metrics (fst (metrics ! j)) = Some m \<and>
         i < length (truthy_properties (m_properties m)) \<and>
         mp_value (truthy_properties (m_properties m) ! i) = PBool b \<longrightarrow>
         pm_name (pl_metrics p' ! (length (pl_metrics p) + j)) = fst (metrics ! j) \<and>
         pm_keys (pl_metrics p' ! (length (pl_metrics p) + j)) ! i =
           mp_name (truthy_properties (m_properties m) ! i) \<and>
         pm_values (pl_metrics p' ! (length (pl_metrics p) + j)) ! i =
           \<lparr>pv_type = mp_data_type (truthy_properties (m_properties m) ! i),
            pv_value = BoolValue (PBool b)\<rparr>)"
    by blast
  then show ?thesis
    by (simp add: set_property_value_def isinstance_def)
qed

theorem boolean_property_encoded_as_bool_witness:
  "\<exists>p'. marshal_payload new_Payload valve_metrics = Inr (p', valve_metrics) \<and>
     length (pl_metrics p') = 2 \<and>
     pm_name (pl_metrics p' ! 1) = ''OGI/Valve'' \<and>
     pm_keys (pl_metrics p' ! 1) ! 1 = ''Open'' \<and>
     pm_values (pl_metrics p' ! 1) ! 1 = \<lparr>pv_type = 11, pv_value = BoolValue (PBool True)\<rparr>"
proof -
  from boolean_property_encoded_as_bool [of new_Payload valve_metrics] obtain p' where
    r: "marshal_payload new_Payload valve_metrics = Inr (p', valve_metrics)" and
    l: "length (pl_metrics p') = length (pl_metrics new_Payload) + length valve_metrics" and
    a: "\<forall>j m i b.
         j < length valve_metrics \<and> map_of valve_metrics (fst (valve_metrics ! j)) = Some m \<and>
         i < length (truthy_properties (m_properties m)) \<and>
         mp_value (truthy_properties (m_properties m) ! i) = PBool b \<longrightarrow>
         pm_name (pl_metrics p' ! (length (pl_metrics new_Payload) + j)) = fst (valve_metrics ! j) \<and>
         pm_keys (pl_metrics p' ! (length (pl_metrics new_Payload) + j)) ! i =
           mp_name (truthy_properties (m_properties m) ! i) \<and>
         pm_values (pl_metrics p' ! (length (pl_metrics new_Payload) + j)) ! i =
           \<lparr>pv_type = mp_data_type (truthy_properties (m_properties m) ! i),
            pv_value = BoolValue (PBool b)\<rparr>"
    by blast
  from a [rule_format, of 1 valve_metric 1 True]
  have "pm_name (pl_metrics p' ! 1) = ''OGI/Valve'' \<and>
        pm_keys (pl_metrics p' ! 1) ! 1 = ''Open'' \<and>
        pm_values (pl_metrics p' ! 1) ! 1 = \<lparr>pv_type = 11, pv_value = BoolValue (PBool True)\<rparr>"
    by (simp add: valve_defs)
  moreover from l have "length (pl_metrics p') = 2" by (simp add: valve_defs)
  ultimately show ?thesis using r by blast
qed




section \<open>Topics\<close>

text \<open>
  C4: the topic of each of the eight packet kinds is its template: the four node-level
  kinds and DCMD end with the node, the three other device-level kinds add the device
  segment. The equations hold for all strings, hence for the non-empty identifiers
  without \<open>/\<close> the claim speaks of.
\<close>

theorem topic_templates:
  "topic (NBirthPacket g n ms) = ''spBv1.0/'' @ g @ ''/NBIRTH/'' @ n \<and>
   topic (NDeathPacket g n ms) = ''spBv1.0/'' @ g @ ''/NDEATH/'' @ n \<and>
   topic (NDataPacket g n ms) = ''spBv1.0/'' @ g @ ''/NDATA/'' @ n \<and>
   topic (NCmdPacket g n ms) = ''spBv1.0/'' @ g @ ''/NCMD/'' @ n \<and>
   topic (DBirthPacket g n d ms) = ''spBv1.0/'' @ g @ ''/DBIRTH/'' @ n @ ''/'' @ d \<and>
   topic (DDataPacket g n d ms) = ''spBv1.0/'' @ g @ ''/DDATA/'' @ n @ ''/'' @ d \<and>
   topic (DDeathPacket g n d ms) = ''spBv1.0/'' @ g @ ''/DDEATH/'' @ n @ ''/'' @ d \<and>
   topic (DCmdPacket g n ms) = ''spBv1.0/'' @ g @ ''/DCMD/'' @ n"
  by simp

theorem topic_templates_witness:
  "valid_identifier ''site.A'' \<and> valid_identifier ''gw1'' \<and> valid_identifier ''sensor1'' \<and>
   topic (DBirthPacket ''site.A'' ''gw1'' ''sensor1'' []) = ''spBv1.0/site.A/DBIRTH/gw1/sensor1'' \<and>
   topic (DCmdPacket ''site.A'' ''gw1'' []) = ''spBv1.0/site.A/DCMD/gw1''"
  using topic_templates [of "''site.A''" "''gw1''" "[]" "''sensor1''"]
  by (simp add: valid_identifier_def)

lemma split_slash_nonempty: "split_slash s \<noteq> []"
  by (induction s) simp_all

lemma split_slash_append:
  "split_slash (a @ CHR ''/'' # b) = split_slash a @ split_slash b"
proof (induction a)
  case Nil
  show ?case by simp
next
  case (Cons c a)
  have ne: "split_slash a \<noteq> []" by (rule split_slash_nonempty)
  show ?case
  proof (cases "c = CHR ''/''")
    case True
    then show ?thesis using Cons.IH by simp
  next
    case False
    have "split_slash ((c # a) @ CHR ''/'' # b) =
            (c # hd (split_slash (a @ CHR ''/'' # b))) # tl (split_slash (a @ CHR ''/'' # b))"
      using False by simp
    also have "\<dots> = (c # hd (split_slash a)) # tl (split_slash a) @ split_slash b"
      unfolding Cons.IH using ne by simp
    also have "\<dots> = split_slash (c # a) @ split_slash b"
      using False by simp
    finally show ?thesis .
  qed
qed

lemma split_slash_no_slash: "CHR ''/'' \<notin> set s \<Longrightarrow> split_slash s = [s]"
  by (induction s) auto

lemma split_slash_pos: "0 < length (split_slash s)"
  by (simp add: split_slash_nonempty)

lemma split_slash_length: "length (split_slash s) = Suc (length (filter (\<lambda>c. c = CHR ''/'') s))"
proof (induction s)
  case Nil
  show ?case by simp
next
  case (Cons c s)
  have "Suc (length (split_slash s) - 1) = length (split_slash s)"
    using split_slash_pos [of s] by simp
  with Cons.IH show ?case by simp
qed

lemma split_slash_single:
  "(length (split_slash s) = Suc 0 \<and> [] \<notin> set (split_slash s)) = valid_identifier s"
proof
  assume h: "length (split_slash s) = Suc 0 \<and> [] \<notin> set (split_slash s)"
  then have "filter (\<lambda>c. c = CHR ''/'') s = []"
    by (simp add: split_slash_length)
  then have ns: "CHR ''/'' \<notin> set s"
    by (auto simp: filter_empty_conv)
  then have "split_slash s = [s]" by (rule split_slash_no_slash)
  with h have "s \<noteq> []" by auto
  with ns show "valid_identifier s"
    by (simp add: valid_identifier_def)
next
  assume v: "valid_identifier s"
  then have "split_slash s = [s]"
    by (simp add: valid_identifier_def split_slash_no_slash)
  moreover from v have "s \<noteq> []" by (simp add: valid_identifier_def)
  ultimately show "length (split_slash s) = Suc 0 \<and> [] \<notin> set (split_slash s)"
    by auto
qed

text \<open>The segments of a node-level and of a device-level topic.\<close>

lemma split_node_topic:
  assumes "CHR ''/'' \<notin> set k"
  shows "split_slash (''spBv1.0'' @ CHR ''/'' # g @ CHR ''/'' # k @ CHR ''/'' # n) =
           ''spBv1.0'' # split_slash g @ k # split_slash n"
proof -
  have "CHR ''/'' \<notin> set ''spBv1.0''" by simp
  then have ns: "split_slash ''spBv1.0'' = [''spBv1.0'']" by (rule split_slash_no_slash)
  have kd: "split_slash k = [k]" using assms by (rule split_slash_no_slash)
  have "split_slash (''spBv1.0'' @ CHR ''/'' # g @ CHR ''/'' # k @ CHR ''/'' # n) =
          split_slash ''spBv1.0'' @ split_slash (g @ CHR ''/'' # k @ CHR ''/'' # n)"
    by (rule split_slash_append)
  also have "split_slash (g @ CHR ''/'' # k @ CHR ''/'' # n) =
          split_slash g @ split_slash (k @ CHR ''/'' # n)"
    by (rule split_slash_append)
  also have "split_slash (k @ CHR ''/'' # n) = split_slash k @ split_slash n"
    by (rule split_slash_append)
  finally show ?thesis unfolding ns kd by simp
qed

lemma split_device_topic:
  assumes "CHR ''/'' \<notin> set k"
  shows "split_slash (''spBv1.0'' @ CHR ''/'' # g @ CHR ''/'' # k @ CHR ''/'' # n @ CHR ''/'' # d) =
           ''spBv1.0'' # split_slash g @ k # split_slash n @ split_slash d"
  unfolding split_node_topic [OF assms] by (simp only: split_slash_append)

lemma node_topic_well_formed:
  assumes "CHR ''/'' \<notin> set k" "k \<noteq> []"
  shows "(length (split_slash (''spBv1.0'' @ CHR ''/'' # g @ CHR ''/'' # k @ CHR ''/'' # n)) = 4 \<and>
          [] \<notin> set (split_slash (''spBv1.0'' @ CHR ''/'' # g @ CHR ''/'' # k @ CHR ''/'' # n))) =
         (valid_identifier g \<and> valid_identifier n)"
proof -
  have len: "(length (''spBv1.0'' # split_slash g @ k # split_slash n) = 4) =
             (length (split_slash g) = Suc 0 \<and> length (split_slash n) = Suc 0)"
  proof -
    have "length (''spBv1.0'' # split_slash g @ k # split_slash n) =
            length (split_slash g) + length (split_slash n) + 2"
      by simp
    then show ?thesis
      using split_slash_pos [of g] split_slash_pos [of n] by arith
  qed
  have emp: "([] \<notin> set (''spBv1.0'' # split_slash g @ k # split_slash n)) =
             ([] \<notin> set (split_slash g) \<and> [] \<notin> set (split_slash n))"
    using assms(2) by auto
  show ?thesis
    unfolding split_node_topic [OF assms(1)] len emp
    using split_slash_single [of g] split_slash_single [of n] by blast
qed

lemma device_topic_well_formed:
  assumes "CHR ''/'' \<notin> set k" "k \<noteq> []"
  shows "(length (split_slash (''spBv1.0'' @ CHR ''/'' # g @ CHR ''/'' # k @ CHR ''/'' # n @ CHR ''/'' # d)) = 5 \<and>
          [] \<notin> set (split_slash (''spBv1.0'' @ CHR ''/'' # g @ CHR ''/'' # k @ CHR ''/'' # n @ CHR ''/'' # d))) =
         (valid_identifier g \<and> valid_identifier n \<and> valid_identifier d)"
proof -
  have len: "(length (''spBv1.0'' # split_slash g @ k # split_slash n @ split_slash d) = 5) =
             (length (split_slash g) = Suc 0 \<and> length (split_slash n) = Suc 0 \<and>
              length (split_slash d) = Suc 0)"
  proof -
    have "length (''spBv1.0'' # split_slash g @ k # split_slash n @ split_slash d) =
            length (split_slash g) + length (split_slash n) + length (split_slash d) + 2"
      by simp
    then show ?thesis
      using split_slash_pos [of g] split_slash_pos [of n] split_slash_pos [of d] by arith
  qed
  have emp: "([] \<notin> set (''spBv1.0'' # split_slash g @ k # split_slash n @ split_slash d)) =
             ([] \<notin> set (split_slash g) \<and> [] \<notin> set (split_slash n) \<and> [] \<notin> set (split_slash d))"
    using assms(2) by auto
  show ?thesis
    unfolding split_device_topic [OF assms(1)] len emp
    using split_slash_single [of g] split_slash_single [of n] split_slash_single [of d] by blast
qed

lemma node_topic_shape:
  "''spBv1.0/'' @ g @ CHR ''/'' # k @ CHR ''/'' # n =
   ''spBv1.0'' @ CHR ''/'' # g @ CHR ''/'' # k @ CHR ''/'' # n"
  by simp

lemma node_kind_well_formed:
  assumes "topic pkt = ''spBv1.0/'' @ g @ CHR ''/'' # k @ CHR ''/'' # n"
    and "identifiers pkt = [g, n]" and "CHR ''/'' \<notin> set k" and "k \<noteq> []"
  shows "well_formed_topic pkt = (valid_identifier g \<and> valid_identifier n)"
  unfolding well_formed_topic_def assms(1,2) node_topic_shape
  using node_topic_well_formed [OF assms(3,4), of g n] by simp

lemma device_kind_well_formed:
  assumes "topic pkt = ''spBv1.0/'' @ g @ CHR ''/'' # k @ CHR ''/'' # n @ CHR ''/'' # d"
    and "identifiers pkt = [g, n, d]" and "CHR ''/'' \<notin> set k" and "k \<noteq> []"
  shows "well_formed_topic pkt = (valid_identifier g \<and> valid_identifier n \<and> valid_identifier d)"
  unfolding well_formed_topic_def assms(1,2) node_topic_shape
  using device_topic_well_formed [OF assms(3,4), of g n d] by simp

text \<open>
  C8, as stated, fails: the code defines no \<open>InvalidIdentifierError\<close> and validates
  nothing. With an empty group and a node that contains \<open>/\<close>, \<open>topic\<close> returns a
  string, with an empty segment and one segment too many.
\<close>

theorem topic_invalid_identifier_counterexample:
  "\<not> valid_identifier [] \<and> \<not> valid_identifier ''gw/1'' \<and>
   topic (DBirthPacket [] ''gw/1'' ''sensor1'' []) = ''spBv1.0//DBIRTH/gw/1/sensor1''"
  by (simp add: valid_identifier_def)

text \<open>
  C8, amended: \<open>topic\<close> raises for no input; it returns the template with the
  identifiers as they are. The topic is well formed exactly when every identifier of the
  packet is non-empty and has no \<open>/\<close>; for any other identifier the caller gets a
  malformed topic, not an error.
\<close>

theorem topic_well_formed_iff:
  "well_formed_topic pkt = list_all valid_identifier (identifiers pkt)"
proof (cases pkt)
  case (NBirthPacket g n ms)
  then show ?thesis using node_kind_well_formed [of pkt g "''NBIRTH''" n] by simp
next
  case (NDataPacket g n ms)
  then show ?thesis using node_kind_well_formed [of pkt g "''NDATA''" n] by simp
next
  case (NCmdPacket g n ms)
  then show ?thesis using node_kind_well_formed [of pkt g "''NCMD''" n] by simp
next
  case (NDeathPacket g n ms)
  then show ?thesis using node_kind_well_formed [of pkt g "''NDEATH''" n] by simp
next
  case (DBirthPacket g n d ms)
  then show ?thesis using device_kind_well_formed [of pkt g "''DBIRTH''" n d] by simp
next
  case (DDataPacket g n d ms)
  then show ?thesis using device_kind_well_formed [of pkt g "''DDATA''" n d] by simp
next
  case (DCmdPacket g n ms)
  then show ?thesis using node_kind_well_formed [of pkt g "''DCMD''" n] by simp
next
  case (DDeathPacket g n d ms)
  then show ?thesis using device_kind_well_formed [of pkt g "''DDEATH''" n d] by simp
qed

theorem topic_well_formed_iff_witness:
  "well_formed_topic (DBirthPacket ''site.A'' ''gw1'' ''sensor1'' []) \<and>
   \<not> well_formed_topic (NBirthPacket [] ''gw1'' [])"
  using topic_well_formed_iff [of "DBirthPacket ''site.A'' ''gw1'' ''sensor1'' []"]
    topic_well_formed_iff [of "NBirthPacket [] ''gw1'' []"]
  by (simp add: valid_identifier_def)

section \<open>Payloads\<close>

lemma payload_eq:
  "payload core pkt ov now st =
     (if kind_of pkt = NDEATH \<or> kind_of pkt = DDEATH then Inr (base_message core pkt now st)
      else marshalled (base_message core pkt now st) (select_metrics ov (metrics_of pkt)))"
  by (cases pkt) simp_all

lemma spec_core_simps:
  "getNodeBirthPayload spec_core = spec_getNodeBirthPayload"
  "getNodeDeathPayload spec_core = spec_getNodeDeathPayload"
  "getDeviceBirthPayload spec_core = spec_getDeviceBirthPayload"
  by (simp_all add: spec_core_def)

lemma probe_core_simps:
  "getNodeBirthPayload probe_core = spec_getNodeBirthPayload"
  "getNodeDeathPayload probe_core = spec_getNodeDeathPayload"
  "getDeviceBirthPayload probe_core =
     (\<lambda>now ctx. (new_Payload\<lparr>pl_timestamp := Some now, pl_seq := Some 0\<rparr>, ctx))"
  by (simp_all add: probe_core_def)

lemmas spec_helper_defs =
  spec_getNodeBirthPayload_def spec_getNodeDeathPayload_def spec_getDeviceBirthPayload_def

text \<open>
  C3, as stated, fails for the empty override: \<open>metrics if metrics else self.metrics\<close>
  takes the stored metrics when the override is an empty dictionary, so the payload holds
  the stored metric and not the (no) metrics of the override.
\<close>

theorem empty_override_counterexample:
  "payload spec_core (NDataPacket ''site.A'' ''gw1'' [(''Node Control/Rebirth'', rebirth_metric)])
     (Some []) 1000 \<lparr>bdSeq = 0\<rparr> =
   Inr (\<lparr>pl_timestamp = Some 1000,
         pl_metrics = [\<lparr>pm_name = ''Node Control/Rebirth'', pm_alias = 1, pm_datatype = 11,
                        pm_value = BoolValue (PBool True), pm_keys = [], pm_values = []\<rparr>],
         pl_seq = None, pl_bdSeq = None\<rparr>,
        \<lparr>bdSeq = 0\<rparr>)"
  by (simp add: marshalled_eq spec_core_simps spec_helper_defs example_defs)

text \<open>
  C3, amended: for every kind other than NDEATH and DDEATH, a non-empty override is
  encoded and the stored metrics are ignored: the payload is the base message extended by
  the wire metrics of the override. With no override, or with an empty one, the stored
  metrics are encoded. NDEATH and DDEATH return the base message whatever the stored
  metrics and the override are.
\<close>

theorem payload_override:
  assumes "base_message core pkt now st = (p, st')"
  shows
    "(kind_of pkt \<noteq> NDEATH \<and> kind_of pkt \<noteq> DDEATH \<longrightarrow>
        payload core pkt (Some (e # es)) now st =
          Inr (p\<lparr>pl_metrics := pl_metrics p @ encoded (e # es)\<rparr>, st') \<and>
        payload core pkt None now st =
          Inr (p\<lparr>pl_metrics := pl_metrics p @ encoded (metrics_of pkt)\<rparr>, st') \<and>
        payload core pkt (Some []) now st = payload core pkt None now st) \<and>
     (kind_of pkt = NDEATH \<or> kind_of pkt = DDEATH \<longrightarrow>
        payload core pkt ov now st = Inr (p, st'))"
  using assms by (simp add: payload_eq marshalled_eq)

theorem payload_override_witness:
  "payload spec_core (NDataPacket ''site.A'' ''gw1'' example_metrics)
     (Some [(''Node Control/Rebirth'', rebirth_metric)]) 1000 \<lparr>bdSeq = 0\<rparr> =
   Inr (\<lparr>pl_timestamp = Some 1000,
         pl_metrics = [\<lparr>pm_name = ''Node Control/Rebirth'', pm_alias = 1, pm_datatype = 11,
                        pm_value = BoolValue (PBool True), pm_keys = [], pm_values = []\<rparr>],
         pl_seq = None, pl_bdSeq = None\<rparr>,
        \<lparr>bdSeq = 0\<rparr>)"
proof -
  have b: "base_message spec_core (NDataPacket ''site.A'' ''gw1'' example_metrics) 1000 \<lparr>bdSeq = 0\<rparr> =
             (new_Payload\<lparr>pl_timestamp := Some 1000\<rparr>, \<lparr>bdSeq = 0\<rparr>)"
    by (simp add: spec_core_simps spec_helper_defs)
  show ?thesis
    using payload_override [OF b, of "(''Node Control/Rebirth'', rebirth_metric)" "[]" None]
    by (simp add: example_defs)
qed

text \<open>
  C5, as stated, fails: \<open>NDataPacket.payload\<close> calls the device-birth helper.
  With a device-birth helper that also stamps \<open>seq\<close>, the NDATA payload carries the
  stamp, as the DBIRTH payload does, and the NCMD payload, built from a new message with
  a timestamp, does not.
\<close>

theorem ndata_base_counterexample:
  "payload probe_core (NDataPacket ''site.A'' ''gw1'' []) None 1000 \<lparr>bdSeq = 0\<rparr> =
     Inr (\<lparr>pl_timestamp = Some 1000, pl_metrics = [], pl_seq = Some 0, pl_bdSeq = None\<rparr>,
          \<lparr>bdSeq = 0\<rparr>) \<and>
   payload probe_core (DBirthPacket ''site.A'' ''gw1'' ''sensor1'' []) None 1000 \<lparr>bdSeq = 0\<rparr> =
     Inr (\<lparr>pl_timestamp = Some 1000, pl_metrics = [], pl_seq = Some 0, pl_bdSeq = None\<rparr>,
          \<lparr>bdSeq = 0\<rparr>) \<and>
   payload probe_core (NCmdPacket ''site.A'' ''gw1'' []) None 1000 \<lparr>bdSeq = 0\<rparr> =
     Inr (\<lparr>pl_timestamp = Some 1000, pl_metrics = [], pl_seq = None, pl_bdSeq = None\<rparr>,
          \<lparr>bdSeq = 0\<rparr>)"
  by (simp add: marshalled_eq probe_core_simps encoded_def new_Payload_def)

text \<open>
  C5, amended: the base message of NDATA is the message the device-birth helper returns,
  the construction path of DBIRTH and DDATA, whatever that helper does. With the
  device-birth helper of the spec, which carries the timestamp only, the NDATA payload has
  the content of the NCMD and DCMD payloads for the same metrics.
\<close>

theorem ndata_uses_device_birth_helper:
  "base_message core (NDataPacket g n ms) now st = getDeviceBirthPayload core now st \<and>
   payload core (NDataPacket g n ms) ov now st = payload core (DBirthPacket g n d ms) ov now st \<and>
   payload core (NDataPacket g n ms) ov now st = payload core (DDataPacket g n d ms) ov now st \<and>
   payload spec_core (NDataPacket g n ms) ov now ctx = payload spec_core (NCmdPacket g n ms) ov now ctx \<and>
   payload spec_core (NDataPacket g n ms) ov now ctx = payload spec_core (DCmdPacket g n ms) ov now ctx"
  by (simp add: spec_core_simps spec_helper_defs)

theorem ndata_uses_device_birth_helper_witness:
  "payload spec_core (NDataPacket ''site.A'' ''gw1'' []) None 1000 \<lparr>bdSeq = 0\<rparr> =
     Inr (\<lparr>pl_timestamp = Some 1000, pl_metrics = [], pl_seq = None, pl_bdSeq = None\<rparr>,
          \<lparr>bdSeq = 0\<rparr>) \<and>
   payload spec_core (NDataPacket ''site.A'' ''gw1'' []) None 1000 \<lparr>bdSeq = 0\<rparr> =
     payload spec_core (DBirthPacket ''site.A'' ''gw1'' ''sensor1'' []) None 1000 \<lparr>bdSeq = 0\<rparr>"
  using ndata_uses_device_birth_helper
    [of spec_core "''site.A''" "''gw1''" "[]" 1000 "\<lparr>bdSeq = 0\<rparr>" None "''sensor1''" "\<lparr>bdSeq = 0\<rparr>"]
  by (simp add: marshalled_eq spec_core_simps spec_helper_defs encoded_def new_Payload_def)

section \<open>The birth and death sequence number\<close>

lemma nbirth_payload_spec:
  "payload spec_core (NBirthPacket g n ms) ov now ctx =
     Inr (new_Payload\<lparr>pl_metrics := encoded (select_metrics ov ms), pl_bdSeq := Some (bdSeq ctx)\<rparr>,
          ctx)"
  by (simp add: marshalled_eq spec_core_simps spec_helper_defs new_Payload_def)

lemma ndeath_payload_spec:
  "payload spec_core (NDeathPacket g n ms) ov now ctx =
     Inr (new_Payload\<lparr>pl_bdSeq := Some (bdSeq ctx)\<rparr>, ctx\<lparr>bdSeq := bdSeq ctx + 1\<rparr>)"
  by (simp add: spec_core_simps spec_helper_defs)

text \<open>Only the node death helper changes the sequence context.\<close>

lemma payload_spec_no_death:
  assumes "kind_of pkt \<noteq> NDEATH"
  shows "\<exists>p. payload spec_core pkt ov now ctx = Inr (p, ctx)"
  using assms
  by (cases pkt) (simp_all add: marshalled_eq spec_core_simps spec_helper_defs)

lemma run_no_death:
  assumes "\<forall>c \<in> set calls. kind_of (fst c) \<noteq> NDEATH"
  shows "\<exists>ps. run spec_core calls ctx = Inr (ps, ctx) \<and> length ps = length calls"
  using assms
proof (induction calls)
  case Nil
  show ?case by simp
next
  case (Cons c calls)
  obtain pkt ov now where c: "c = (pkt, ov, now)" by (cases c)
  with Cons.prems have "kind_of pkt \<noteq> NDEATH" by simp
  then obtain p where p: "payload spec_core pkt ov now ctx = Inr (p, ctx)"
    using payload_spec_no_death by blast
  from Cons obtain ps where ps: "run spec_core calls ctx = Inr (ps, ctx)" "length ps = length calls"
    by auto
  show ?case using c p ps by simp
qed

lemma run_append:
  assumes "run core xs st = Inr (ps, st')" and "run core ys st' = Inr (qs, st'')"
  shows "run core (xs @ ys) st = Inr (ps @ qs, st'')"
  using assms
proof (induction xs arbitrary: st ps)
  case Nil
  then show ?case by simp
next
  case (Cons c xs)
  obtain pkt ov now where c: "c = (pkt, ov, now)" by (cases c)
  from Cons.prems(1) c obtain p s1 ps1 where
    p: "payload core pkt ov now st = Inr (p, s1)" and
    r: "run core xs s1 = Inr (ps1, st')" and e: "ps = p # ps1"
    by (auto split: sum.splits)
  from Cons.IH [OF r Cons.prems(2)] show ?case using c p e by simp
qed

lemma run_single:
  assumes "payload core pkt ov now st = Inr (p, st')"
  shows "run core [(pkt, ov, now)] st = Inr ([p], st')"
  using assms by simp

text \<open>
  C1, as stated for every node, fails: the counter is one for the whole process. Node A
  is born with bdSeq 5; the death payload of another node B is constructed; the next
  death payload of node A then embeds 6, not 5.
\<close>

theorem bdSeq_per_node_counterexample:
  "run spec_core
     [(NBirthPacket ''site.A'' ''nodeA'' [], None, 1000),
      (NDeathPacket ''site.A'' ''nodeB'' [], None, 1001),
      (NDeathPacket ''site.A'' ''nodeA'' [], None, 1002)] \<lparr>bdSeq = 5\<rparr> =
   Inr ([\<lparr>pl_timestamp = None, pl_metrics = [], pl_seq = None, pl_bdSeq = Some 5\<rparr>,
         \<lparr>pl_timestamp = None, pl_metrics = [], pl_seq = None, pl_bdSeq = Some 5\<rparr>,
         \<lparr>pl_timestamp = None, pl_metrics = [], pl_seq = None, pl_bdSeq = Some 6\<rparr>],
        \<lparr>bdSeq = 7\<rparr>)"
  by (simp add: nbirth_payload_spec ndeath_payload_spec encoded_def new_Payload_def
      del: payload.simps)

text \<open>
  C1, amended: the counter is process-wide. After an NBIRTH payload that embeds bdSeq N,
  the next NDEATH payload constructed in the process, for this node, embeds N, and an
  NBIRTH payload constructed after it, with no further NDEATH payload constructed in
  between, embeds N + 1. Payloads of the other kinds, for any node, may be constructed
  in between.
\<close>

theorem birth_death_pairing:
  assumes "\<forall>c \<in> set mid. kind_of (fst c) \<noteq> NDEATH"
    and "\<forall>c \<in> set mid'. kind_of (fst c) \<noteq> NDEATH"
  shows "\<exists>pb ps pd ps' pb' ctx'.
           run spec_core
             ((NBirthPacket g n ms, ov, t) # mid @
              (NDeathPacket g n ms', ov', t') # mid' @
              [(NBirthPacket g n ms'', ov'', t'')]) ctx =
             Inr (pb # ps @ pd # ps' @ [pb'], ctx') \<and>
           length ps = length mid \<and> length ps' = length mid' \<and>
           pl_bdSeq pb = Some (bdSeq ctx) \<and>
           pl_bdSeq pd = Some (bdSeq ctx) \<and>
           pl_bdSeq pb' = Some (bdSeq ctx + 1)"
proof -
  let ?dead = "ctx\<lparr>bdSeq := bdSeq ctx + 1\<rparr>"
  let ?pb = "new_Payload\<lparr>pl_metrics := encoded (select_metrics ov ms), pl_bdSeq := Some (bdSeq ctx)\<rparr>"
  let ?pd = "new_Payload\<lparr>pl_bdSeq := Some (bdSeq ctx)\<rparr>"
  let ?pb' = "new_Payload\<lparr>pl_metrics := encoded (select_metrics ov'' ms''),
                           pl_bdSeq := Some (bdSeq ctx + 1)\<rparr>"
  from run_no_death [OF assms(1)] obtain ps where
    ps: "run spec_core mid ctx = Inr (ps, ctx)" "length ps = length mid" by blast
  from run_no_death [OF assms(2)] obtain ps' where
    ps': "run spec_core mid' ?dead = Inr (ps', ?dead)" "length ps' = length mid'" by blast
  have last: "run spec_core [(NBirthPacket g n ms'', ov'', t'')] ?dead = Inr ([?pb'], ?dead)"
    by (rule run_single) (simp add: nbirth_payload_spec del: payload.simps)
  have tail: "run spec_core (mid' @ [(NBirthPacket g n ms'', ov'', t'')]) ?dead =
                Inr (ps' @ [?pb'], ?dead)"
    by (rule run_append [OF ps'(1) last])
  have death: "run spec_core ((NDeathPacket g n ms', ov', t') # mid' @
                 [(NBirthPacket g n ms'', ov'', t'')]) ctx = Inr (?pd # ps' @ [?pb'], ?dead)"
    by (simp add: ndeath_payload_spec tail del: payload.simps)
  have middle: "run spec_core (mid @ (NDeathPacket g n ms', ov', t') # mid' @
                  [(NBirthPacket g n ms'', ov'', t'')]) ctx =
                  Inr (ps @ ?pd # ps' @ [?pb'], ?dead)"
    by (rule run_append [OF ps(1) death])
  have "run spec_core
          ((NBirthPacket g n ms, ov, t) # mid @
           (NDeathPacket g n ms', ov', t') # mid' @
           [(NBirthPacket g n ms'', ov'', t'')]) ctx =
          Inr (?pb # ps @ ?pd # ps' @ [?pb'], ?dead)"
    by (simp add: nbirth_payload_spec middle del: payload.simps)
  moreover have "pl_bdSeq ?pb = Some (bdSeq ctx)" "pl_bdSeq ?pd = Some (bdSeq ctx)"
    "pl_bdSeq ?pb' = Some (bdSeq ctx + 1)"
    by simp_all
  ultimately show ?thesis using ps(2) ps'(2) by blast
qed

theorem birth_death_pairing_witness:
  "\<exists>pb ps pd ps' pb' ctx'.
     run spec_core
       [(NBirthPacket ''site.A'' ''nodeA'' example_metrics, None, 1000),
        (NDataPacket ''site.A'' ''nodeB'' example_metrics, None, 1001),
        (NDeathPacket ''site.A'' ''nodeA'' example_metrics, None, 1002),
        (NBirthPacket ''site.A'' ''nodeA'' example_metrics, None, 1003)] \<lparr>bdSeq = 5\<rparr> =
       Inr (pb # ps @ pd # ps' @ [pb'], ctx') \<and>
     length ps = 1 \<and> length ps' = 0 \<and>
     pl_bdSeq pb = Some 5 \<and> pl_bdSeq pd = Some 5 \<and> pl_bdSeq pb' = Some 6"
proof -
  have m: "\<forall>c \<in> set [(NDataPacket ''site.A'' ''nodeB'' example_metrics, None :: metric_dict option, 1001 :: nat)].
             kind_of (fst c) \<noteq> NDEATH"
    by simp
  have m': "\<forall>c \<in> set ([] :: (Packet \<times> metric_dict option \<times> nat) list). kind_of (fst c) \<noteq> NDEATH"
    by simp
  show ?thesis
    using birth_death_pairing [OF m m', of "''site.A''" "''nodeA''" example_metrics None 1000
        example_metrics None 1002 example_metrics None 1003 "\<lparr>bdSeq = 5\<rparr>"]
    by simp
qed

section \<open>Calling \<open>payload\<close> twice\<close>

text \<open>
  C6, as stated, fails for NDEATH: each construction of a death payload advances the
  counter, so two calls on the same unchanged packet, at the same clock reading, embed 5
  and then 6.
\<close>

theorem ndeath_twice_counterexample:
  "run spec_core
     [(NDeathPacket ''site.A'' ''gw1'' [], None, 1000),
      (NDeathPacket ''site.A'' ''gw1'' [], None, 1000)] \<lparr>bdSeq = 5\<rparr> =
   Inr ([\<lparr>pl_timestamp = None, pl_metrics = [], pl_seq = None, pl_bdSeq = Some 5\<rparr>,
         \<lparr>pl_timestamp = None, pl_metrics = [], pl_seq = None, pl_bdSeq = Some 6\<rparr>],
        \<lparr>bdSeq = 7\<rparr>)"
  by (simp add: ndeath_payload_spec new_Payload_def del: payload.simps)

text \<open>
  C6, amended: for every kind other than NDEATH, two calls of \<open>payload\<close> in a row on a
  packet whose metrics are not changed return messages that differ at most in the
  timestamp field, and are equal when both calls read the same clock value; the two
  NBIRTH messages are equal in any case. For NDEATH the first message embeds bdSeq N and
  the second N + 1.
\<close>

theorem payload_twice:
  "(kind_of pkt \<noteq> NDEATH \<longrightarrow>
      (\<exists>p1 p2. run spec_core [(pkt, ov, t1), (pkt, ov, t2)] ctx = Inr ([p1, p2], ctx) \<and>
         p1\<lparr>pl_timestamp := pl_timestamp p2\<rparr> = p2 \<and>
         (t1 = t2 \<longrightarrow> p1 = p2) \<and>
         (kind_of pkt = NBIRTH \<longrightarrow> p1 = p2))) \<and>
   (kind_of pkt = NDEATH \<longrightarrow>
      run spec_core [(pkt, ov, t1), (pkt, ov, t2)] ctx =
        Inr ([new_Payload\<lparr>pl_bdSeq := Some (bdSeq ctx)\<rparr>,
              new_Payload\<lparr>pl_bdSeq := Some (bdSeq ctx + 1)\<rparr>],
             ctx\<lparr>bdSeq := bdSeq ctx + 2\<rparr>))"
  by (cases pkt) (simp_all add: marshalled_eq spec_core_simps spec_helper_defs)

theorem payload_twice_witness:
  "run spec_core
     [(NCmdPacket ''site.A'' ''gw1'' [(''Node Control/Rebirth'', rebirth_metric)], None, 1000),
      (NCmdPacket ''site.A'' ''gw1'' [(''Node Control/Rebirth'', rebirth_metric)], None, 1001)]
     \<lparr>bdSeq = 5\<rparr> =
   Inr ([\<lparr>pl_timestamp = Some 1000,
          pl_metrics = [\<lparr>pm_name = ''Node Control/Rebirth'', pm_alias = 1, pm_datatype = 11,
                         pm_value = BoolValue (PBool True), pm_keys = [], pm_values = []\<rparr>],
          pl_seq = None, pl_bdSeq = None\<rparr>,
         \<lparr>pl_timestamp = Some 1001,
          pl_metrics = [\<lparr>pm_name = ''Node Control/Rebirth'', pm_alias = 1, pm_datatype = 11,
                         pm_value = BoolValue (PBool True), pm_keys = [], pm_values = []\<rparr>],
          pl_seq = None, pl_bdSeq = None\<rparr>],
        \<lparr>bdSeq = 5\<rparr>)"
  using payload_twice
    [of "NCmdPacket ''site.A'' ''gw1'' [(''Node Control/Rebirth'', rebirth_metric)]" None 1000 1001
        "\<lparr>bdSeq = 5\<rparr>"]
  by (simp add: marshalled_eq example_defs)

end
